theory Spec2Isabelle
  imports Complex_Main "HOL-Library.Word" "HOL-Library.AList"
begin

unbundle bit_operations_syntax

section \<open>JavaScript values\<close>

text \<open>
  A JavaScript number is modelled as an exact rational or one of the three non-finite
  values. The rounding of IEEE doubles and the sign of zero are not modelled; every
  concrete evaluation below uses values that doubles represent exactly.
\<close>

datatype jsnum = Fin rat | PosInf | NegInf | NaN

text \<open>
  \<open>JOther\<close> stands for a value that is not a number and whose numeric coercion is NaN:
  \<open>undefined\<close>, a function, an object.
\<close>

datatype jsval = JNum jsnum | JOther

datatype error =
    UnknownReportingTime string
  | MeterDivisorMismatch
  | NotANumber
  | NoEndpointDefined
  | TypeError

section \<open>Reporting times\<close>

text \<open>\<open>const timeLookup = {'MAX': 65000, '1_HOUR': 3600, ...}\<close>\<close>

definition timeLookup :: "(string \<times> rat) list" where
  "timeLookup =
     [(''MAX'', 65000), (''1_HOUR'', 3600), (''30_MINUTES'', 1800),
      (''1_MINUTE'', 60), (''10_SECONDS'', 10), (''MIN'', 0)]"

text \<open>
  The property names every object literal inherits from \<open>Object.prototype\<close>. The
  operator \<open>in\<close> of JavaScript answers true for an own property and for an inherited
  one.
\<close>

definition objectPrototypeKeys :: "string list" where
  "objectPrototypeKeys =
     [''constructor'', ''__defineGetter__'', ''__defineSetter__'', ''hasOwnProperty'',
      ''__lookupGetter__'', ''__lookupSetter__'', ''isPrototypeOf'',
      ''propertyIsEnumerable'', ''toString'', ''valueOf'', ''__proto__'',
      ''toLocaleString'']"

definition jsIn :: "string \<Rightarrow> (string \<times> rat) list \<Rightarrow> bool" where
  "jsIn k obj = (k \<in> set (map fst obj) \<or> k \<in> set objectPrototypeKeys)"

text \<open>\<open>obj[k]\<close>: the own property when there is one, else the inherited member.\<close>

definition jsGet :: "(string \<times> rat) list \<Rightarrow> string \<Rightarrow> jsval" where
  "jsGet obj k = (case map_of obj k of Some v \<Rightarrow> JNum (Fin v) | None \<Rightarrow> JOther)"

text \<open>\<open>type ReportingConfigTime = number | keyof typeof timeLookup\<close>; at run time a
  number or any string.\<close>

datatype reportingConfigTime = TimeNum jsnum | TimeStr string

definition convertReportingConfigTime :: "reportingConfigTime \<Rightarrow> error + jsval" where
  "convertReportingConfigTime time =
     (case time of
        TimeStr s \<Rightarrow>
          if \<not> jsIn s timeLookup then Inl (UnknownReportingTime s)
          else Inr (jsGet timeLookup s)
      | TimeNum n \<Rightarrow> Inr (JNum n))"

section \<open>The configurator of the generic builders\<close>

text \<open>
  Modelled from the spec: the access constants of \<open>lib/exposes\<close>, a bitmask of
  readable (published state), writable and individually readable.
\<close>

definition ea_STATE :: nat where "ea_STATE = 1"
definition ea_SET :: nat where "ea_SET = 2"
definition ea_GET :: nat where "ea_GET = 4"
definition ea_STATE_GET :: nat where "ea_STATE_GET = 5"
definition ea_ALL :: nat where "ea_ALL = 7"

datatype clusterKey = ClusterName string | ClusterId nat

datatype reportingConfigAttribute = AttrName string | AttrId nat | AttrTyped nat nat

datatype reportableChange = Change jsnum | ChangePair jsnum jsnum

record reportingConfigWithoutAttribute =
  rmin :: reportingConfigTime
  rmax :: reportingConfigTime
  change :: reportableChange

record reportingConfig = reportingConfigWithoutAttribute +
  attribute :: reportingConfigAttribute

text \<open>
  The closure \<open>configure\<close> that \<open>setupConfigureForReporting\<close> returns, as the values it
  captures: the cluster, the report item it will pass to \<open>setupAttributes\<close>, the two
  flags and the endpoint filter.
\<close>

record configure =
  cfgCluster :: clusterKey
  cfgReportConfig :: reportingConfig
  cfgConfigureReporting :: bool
  cfgRead :: bool
  cfgEndpointNames :: "string list option"

definition setupConfigureForReporting ::
  "clusterKey \<Rightarrow> reportingConfigAttribute \<Rightarrow> reportingConfigWithoutAttribute option \<Rightarrow>
   nat \<Rightarrow> string list option \<Rightarrow> configure option" where
  "setupConfigureForReporting cluster attr config access endpointNames =
     (let configureReporting = (config \<noteq> None);
          read = (access AND ea_GET \<noteq> 0)
      in if configureReporting \<or> read then
           Some \<lparr>cfgCluster = cluster,
                 cfgReportConfig =
                   (case config of
                      Some c \<Rightarrow> \<lparr>rmin = rmin c, rmax = rmax c, change = change c,
                                  attribute = attr\<rparr>
                    | None \<Rightarrow> \<lparr>rmin = TimeNum (Fin (- 1)), rmax = TimeNum (Fin (- 1)),
                                change = Change (Fin (- 1)), attribute = attr\<rparr>),
                 cfgConfigureReporting = configureReporting,
                 cfgRead = read,
                 cfgEndpointNames = endpointNames\<rparr>
         else None)"

section \<open>Arithmetic of JavaScript numbers\<close>

definition jsPositive :: "jsnum \<Rightarrow> bool" where
  "jsPositive x = (case x of Fin q \<Rightarrow> 0 \<le> q | PosInf \<Rightarrow> True | NegInf \<Rightarrow> False | NaN \<Rightarrow> True)"

definition jsInf :: "bool \<Rightarrow> jsnum" where
  "jsInf positive = (if positive then PosInf else NegInf)"

text \<open>\<open>a * b\<close>\<close>

fun jsMul :: "jsnum \<Rightarrow> jsnum \<Rightarrow> jsnum" where
  "jsMul NaN _ = NaN"
| "jsMul _ NaN = NaN"
| "jsMul (Fin a) (Fin b) = Fin (a * b)"
| "jsMul (Fin a) y = (if a = 0 then NaN else jsInf (jsPositive (Fin a) = jsPositive y))"
| "jsMul x (Fin b) = (if b = 0 then NaN else jsInf (jsPositive x = jsPositive (Fin b)))"
| "jsMul x y = jsInf (jsPositive x = jsPositive y)"

text \<open>\<open>a / b\<close>: a finite number over zero is an infinity, zero over zero is NaN.\<close>

fun jsDiv :: "jsnum \<Rightarrow> jsnum \<Rightarrow> jsnum" where
  "jsDiv NaN _ = NaN"
| "jsDiv _ NaN = NaN"
| "jsDiv (Fin a) (Fin b) =
     (if b = 0 then (if a = 0 then NaN else jsInf (0 < a)) else Fin (a / b))"
| "jsDiv (Fin a) y = Fin 0"
| "jsDiv x (Fin b) = jsInf (jsPositive x = jsPositive (Fin b))"
| "jsDiv x y = NaN"

text \<open>\<open>a < b\<close> on numbers: false as soon as one side is NaN.\<close>

fun jsLess :: "jsnum \<Rightarrow> jsnum \<Rightarrow> bool" where
  "jsLess NaN _ = False"
| "jsLess _ NaN = False"
| "jsLess (Fin a) (Fin b) = (a < b)"
| "jsLess NegInf y = (y \<noteq> NegInf)"
| "jsLess x PosInf = (x \<noteq> PosInf)"
| "jsLess x y = False"

text \<open>\<open>Math.round\<close>: the nearest integer, a tie going up.\<close>

definition mathRound :: "jsnum \<Rightarrow> jsnum" where
  "mathRound x = (case x of Fin q \<Rightarrow> Fin (of_int \<lfloor>q + 1 / 2\<rfloor>) | _ \<Rightarrow> x)"

text \<open>
  Modelled from the spec: \<open>precisionRound\<close> of \<open>lib/utils\<close>, which is not among the
  sources. The spec: an optional precision step rounds to N digits, round-half-up.
\<close>

definition precisionRound :: "jsnum \<Rightarrow> nat \<Rightarrow> jsnum" where
  "precisionRound number precision =
     (let factor = Fin (10 ^ precision)
      in jsDiv (mathRound (jsMul number factor)) factor)"

definition toNumber :: "jsval \<Rightarrow> jsnum" where
  "toNumber v = (case v of JNum n \<Rightarrow> n | JOther \<Rightarrow> NaN)"

text \<open>
  The operands of the bitwise operators are converted to 32-bit integers: the number
  truncated towards zero, modulo \<open>2 ^ 32\<close>; NaN and the infinities give 0.
\<close>

definition jsTruncate :: "rat \<Rightarrow> int" where
  "jsTruncate q = (if 0 \<le> q then \<lfloor>q\<rfloor> else \<lceil>q\<rceil>)"

definition toInt32 :: "jsnum \<Rightarrow> 32 word" where
  "toInt32 x = (case x of Fin q \<Rightarrow> word_of_int (jsTruncate q) | _ \<Rightarrow> 0)"

text \<open>\<open>v & 1 << k\<close>, for a value \<open>v\<close> of the message and \<open>k < 31\<close>.\<close>

definition bitAnd :: "jsval option \<Rightarrow> nat \<Rightarrow> 32 word" where
  "bitAnd v k = toInt32 (case v of None \<Rightarrow> NaN | Some x \<Rightarrow> toNumber x) AND push_bit k 1"

text \<open>\<open>a || b\<close> on 32-bit integers: the first operand when it is not zero.\<close>

definition jsOr :: "32 word \<Rightarrow> 32 word \<Rightarrow> 32 word" where
  "jsOr a b = (if a \<noteq> 0 then a else b)"

text \<open>\<open>a > 0\<close> on a 32-bit integer, which is signed.\<close>

definition gtZero :: "32 word \<Rightarrow> bool" where
  "gtZero a = (0 < sint a)"

text \<open>
  Modelled from the spec: \<open>assertNumber\<close> of \<open>lib/utils\<close>, which is not among the
  sources. The spec: decoders validate numeric-ness before and after scaling, and a
  non-numeric result is a fault. NaN counts as not a number.
\<close>

definition assertNumber :: "jsval \<Rightarrow> error + jsnum" where
  "assertNumber v =
     (case v of JNum NaN \<Rightarrow> Inl NotANumber | JNum n \<Rightarrow> Inr n | JOther \<Rightarrow> Inl NotANumber)"

section \<open>Inbound messages\<close>

datatype msgType = AttributeReport | ReadResponse | CommandStatusChangeNotification

text \<open>
  The key of an attribute in \<open>msg.data\<close>: its name, or its numeric identifier. The names
  are attribute names of the protocol's clusters, none of which is a member of
  \<open>Object.prototype\<close>, so \<open>key in msg.data\<close> and \<open>msg.data.hasOwnProperty(key)\<close> are
  both membership among the message's own keys.
\<close>

datatype attributeKey = KeyName string | KeyId nat

record message =
  mtype :: msgType
  mdata :: "attributeKey \<Rightarrow> jsval option"
  mendpoint :: nat

section \<open>The electricity meter\<close>

datatype meterCluster = Both | Metering | Electrical

record multiplierDivisor =
  multiplier :: "rat option"
  divisor :: "rat option"

text \<open>\<open>false | MultiplierDivisor\<close>, or absent.\<close>

datatype forcedArg = Unset | Disabled | Forced multiplierDivisor

record electricityMeterArgs =
  emCluster :: "meterCluster option"
  emCurrent :: forcedArg
  emPower :: forcedArg
  emVoltage :: forcedArg
  emEnergy :: forcedArg

definition isObject :: "forcedArg \<Rightarrow> bool" where
  "isObject a = (case a of Forced _ \<Rightarrow> True | _ \<Rightarrow> False)"

text \<open>\<open>a?.divisor\<close> and \<open>a?.multiplier\<close>: \<open>undefined\<close> (\<open>None\<close>) when the field is
  absent.\<close>

definition divisorOf :: "forcedArg \<Rightarrow> rat option" where
  "divisorOf a = (case a of Forced md \<Rightarrow> divisor md | _ \<Rightarrow> None)"

definition multiplierOf :: "forcedArg \<Rightarrow> rat option" where
  "multiplierOf a = (case a of Forced md \<Rightarrow> multiplier md | _ \<Rightarrow> None)"

record meterProperty =
  mpAttribute :: string
  mpDivisor :: string
  mpMultiplier :: string
  mpForced :: forcedArg
  mpChange :: rat

text \<open>\<open>delete obj[k]\<close>\<close>

definition deleteKey :: "string \<Rightarrow> (string \<times> 'v) list \<Rightarrow> (string \<times> 'v) list" where
  "deleteKey k obj = filter (\<lambda>kv. fst kv \<noteq> k) obj"

text \<open>\<open>delete obj[c][k]\<close>\<close>

definition deleteIn ::
  "string \<Rightarrow> string \<Rightarrow> (string \<times> (string \<times> 'v) list) list \<Rightarrow> (string \<times> (string \<times> 'v) list) list" where
  "deleteIn c k obj = map (\<lambda>cv. if fst cv = c then (c, deleteKey k (snd cv)) else cv) obj"

text \<open>
  The bundle of the electricity meter. The descriptors are the presets of
  \<open>lib/exposes\<close> by name with their access, the decoders and encoders are those of
  \<open>converters/fromZigbee\<close> and \<open>converters/toZigbee\<close> by name, and the configurator is
  the table \<open>configureLookup\<close> its closure walks.
\<close>

record meterExtend =
  meExposes :: "(string \<times> nat) list"
  meFromZigbee :: "string list"
  meToZigbee :: "string list"
  meConfigureLookup :: "(string \<times> (string \<times> meterProperty) list) list"

definition electricityMeter :: "electricityMeterArgs \<Rightarrow> error + meterExtend" where
  "electricityMeter args =
     (let cluster = (case emCluster args of None \<Rightarrow> Both | Some c \<Rightarrow> c) in
      if cluster = Metering \<and> isObject (emPower args) \<and> isObject (emEnergy args) \<and>
         (divisorOf (emPower args) \<noteq> divisorOf (emEnergy args) \<or>
          multiplierOf (emPower args) \<noteq> multiplierOf (emEnergy args))
      then Inl MeterDivisorMismatch
      else
        let l0 =
              [(''haElectricalMeasurement'',
                 [(''power'', \<lparr>mpAttribute = ''activePower'', mpDivisor = ''acPowerDivisor'',
                     mpMultiplier = ''acPowerMultiplier'', mpForced = emPower args, mpChange = 5\<rparr>),
                  (''current'', \<lparr>mpAttribute = ''rmsCurrent'', mpDivisor = ''acCurrentDivisor'',
                     mpMultiplier = ''acCurrentMultiplier'', mpForced = emCurrent args,
                     mpChange = 5 / 100\<rparr>),
                  (''voltage'', \<lparr>mpAttribute = ''rmsVoltage'', mpDivisor = ''acVoltageDivisor'',
                     mpMultiplier = ''acVoltageMultiplier'', mpForced = emVoltage args,
                     mpChange = 5\<rparr>)]),
               (''seMetering'',
                 [(''power'', \<lparr>mpAttribute = ''instantaneousDemand'', mpDivisor = ''divisor'',
                     mpMultiplier = ''multiplier'', mpForced = emPower args, mpChange = 5\<rparr>),
                  (''energy'', \<lparr>mpAttribute = ''currentSummDelivered'', mpDivisor = ''divisor'',
                     mpMultiplier = ''multiplier'', mpForced = emEnergy args,
                     mpChange = 1 / 10\<rparr>)])];
            l1 = (if emPower args = Disabled
                  then deleteIn ''seMetering'' ''power''
                         (deleteIn ''haElectricalMeasurement'' ''power'' l0)
                  else l0);
            l2 = (if emVoltage args = Disabled
                  then deleteIn ''haElectricalMeasurement'' ''voltage'' l1 else l1);
            l3 = (if emCurrent args = Disabled
                  then deleteIn ''haElectricalMeasurement'' ''current'' l2 else l2);
            l4 = (if emEnergy args = Disabled
                  then deleteIn ''seMetering'' ''energy'' l3 else l3)
        in Inr
          (case cluster of
             Both \<Rightarrow>
               \<lparr>meExposes = [(''power'', ea_STATE_GET), (''voltage'', ea_STATE_GET),
                               (''current'', ea_STATE_GET), (''energy'', ea_STATE_GET)],
                meFromZigbee = [''electrical_measurement'', ''metering''],
                meToZigbee = [''electrical_measurement_power'', ''acvoltage'', ''accurrent'',
                              ''currentsummdelivered''],
                meConfigureLookup = deleteIn ''seMetering'' ''power'' l4\<rparr>
           | Metering \<Rightarrow>
               \<lparr>meExposes = [(''power'', ea_STATE_GET), (''energy'', ea_STATE_GET)],
                meFromZigbee = [''metering''],
                meToZigbee = [''metering_power'', ''currentsummdelivered''],
                meConfigureLookup = deleteKey ''haElectricalMeasurement'' l4\<rparr>
           | Electrical \<Rightarrow>
               \<lparr>meExposes = [(''power'', ea_STATE_GET), (''voltage'', ea_STATE_GET),
                               (''current'', ea_STATE_GET)],
                meFromZigbee = [''electrical_measurement''],
                meToZigbee = [''electrical_measurement_power'', ''acvoltage'', ''accurrent''],
                meConfigureLookup = deleteKey ''seMetering'' l4\<rparr>))"

section \<open>Capability descriptors\<close>

text \<open>
  Modelled from the spec: the descriptor builder library \<open>lib/exposes\<close>, which is not
  among the sources. A descriptor has a name, a kind, an access mode, an optional
  endpoint qualifier, a unit, bounds and allowed values; \<open>property\<close> is the key of the
  capability in a state update: the name, followed by \<open>_\<close> and the endpoint once an
  endpoint qualifies it. An absent \<open>label\<close> is the library's default.
\<close>

record expose =
  kind :: string
  name :: string
  property :: string
  access :: nat
  endpoint :: "string option"
  description :: "string option"
  value_on :: "bool option"
  value_off :: "bool option"
  unit :: "string option"
  value_min :: "rat option"
  value_max :: "rat option"
  value_step :: "rat option"
  label :: "string option"
  category :: "string option"

definition e_base :: "string \<Rightarrow> string \<Rightarrow> nat \<Rightarrow> expose" where
  "e_base k n a =
     \<lparr>kind = k, name = n, property = n, access = a, endpoint = None, description = None,
      value_on = None, value_off = None, unit = None, value_min = None, value_max = None,
      value_step = None, label = None, category = None\<rparr>"

definition e_numeric :: "string \<Rightarrow> nat \<Rightarrow> expose" where
  "e_numeric n a = e_base ''numeric'' n a"

definition e_binary :: "string \<Rightarrow> nat \<Rightarrow> bool \<Rightarrow> bool \<Rightarrow> expose" where
  "e_binary n a von voff = (e_base ''binary'' n a)\<lparr>value_on := Some von, value_off := Some voff\<rparr>"

definition withDescription :: "string \<Rightarrow> expose \<Rightarrow> expose" where
  "withDescription d x = x\<lparr>description := Some d\<rparr>"

definition withEndpoint :: "string \<Rightarrow> expose \<Rightarrow> expose" where
  "withEndpoint ep x = x\<lparr>endpoint := Some ep, property := property x @ ''_'' @ ep\<rparr>"

definition withUnit :: "string \<Rightarrow> expose \<Rightarrow> expose" where
  "withUnit u x = x\<lparr>unit := Some u\<rparr>"

definition withValueMin :: "rat \<Rightarrow> expose \<Rightarrow> expose" where
  "withValueMin v x = x\<lparr>value_min := Some v\<rparr>"

definition withValueMax :: "rat \<Rightarrow> expose \<Rightarrow> expose" where
  "withValueMax v x = x\<lparr>value_max := Some v\<rparr>"

definition withValueStep :: "rat \<Rightarrow> expose \<Rightarrow> expose" where
  "withValueStep v x = x\<lparr>value_step := Some v\<rparr>"

definition withLabel :: "string \<Rightarrow> expose \<Rightarrow> expose" where
  "withLabel l x = x\<lparr>label := Some l\<rparr>"

definition withCategory :: "string \<Rightarrow> expose \<Rightarrow> expose" where
  "withCategory c x = x\<lparr>category := Some c\<rparr>"

text \<open>
  An object literal with computed keys, and a state update: the keys in the order of
  their first insertion; a key written twice keeps its place and the later value.
\<close>

definition jsObject :: "(string \<times> 'v) list \<Rightarrow> (string \<times> 'v) list" where
  "jsObject kvs = foldl (\<lambda>obj kv. AList.update (fst kv) (snd kv) obj) [] kvs"

section \<open>The numeric builder\<close>

datatype direction = From | To

text \<open>\<open>scale?: number | ScaleFunction\<close>\<close>

datatype scale = ScaleConst jsnum | ScaleFun "jsnum \<Rightarrow> direction \<Rightarrow> jsnum"

datatype accessName = Access_STATE | Access_STATE_GET | Access_ALL

definition ea :: "accessName \<Rightarrow> nat" where
  "ea a =
     (case a of Access_STATE \<Rightarrow> ea_STATE | Access_STATE_GET \<Rightarrow> ea_STATE_GET
      | Access_ALL \<Rightarrow> ea_ALL)"

text \<open>\<open>attribute: string | {ID: number, type: number}\<close>\<close>

datatype numericAttribute = NamedAttribute string | TypedAttribute nat nat

record numericArgs =
  naName :: string
  naCluster :: clusterKey
  naAttribute :: numericAttribute
  naDescription :: string
  naAccess :: "accessName option"
  naUnit :: "string option"
  naEndpointNames :: "string list option"
  naReporting :: "reportingConfigWithoutAttribute option"
  naValueMin :: "rat option"
  naValueMax :: "rat option"
  naValueStep :: "rat option"
  naScale :: "scale option"
  naLabel :: "string option"
  naEntityCategory :: "string option"
  naPrecision :: "nat option"

definition numeric_attributeKey :: "numericArgs \<Rightarrow> attributeKey" where
  "numeric_attributeKey args =
     (case naAttribute args of NamedAttribute a \<Rightarrow> KeyName a | TypedAttribute i t \<Rightarrow> KeyId i)"

definition numeric_access :: "numericArgs \<Rightarrow> nat" where
  "numeric_access args = ea (case naAccess args of None \<Rightarrow> Access_ALL | Some a \<Rightarrow> a)"

text \<open>A string in a condition: the empty string counts as false.\<close>

definition truthy :: "string option \<Rightarrow> bool" where
  "truthy s = (case s of None \<Rightarrow> False | Some x \<Rightarrow> x \<noteq> [])"

definition applyIf :: "bool \<Rightarrow> ('a \<Rightarrow> 'a) \<Rightarrow> 'a \<Rightarrow> 'a" where
  "applyIf c f x = (if c then f x else x)"

definition applyOpt :: "'b option \<Rightarrow> ('b \<Rightarrow> 'a \<Rightarrow> 'a) \<Rightarrow> 'a \<Rightarrow> 'a" where
  "applyOpt v f x = (case v of None \<Rightarrow> x | Some b \<Rightarrow> f b x)"

definition createExpose :: "numericArgs \<Rightarrow> string option \<Rightarrow> expose" where
  "createExpose args ep =
     (let x0 = withDescription (naDescription args) (e_numeric (naName args) (numeric_access args));
          x1 = applyIf (truthy ep) (applyOpt ep withEndpoint) x0;
          x2 = applyIf (truthy (naUnit args)) (applyOpt (naUnit args) withUnit) x1;
          x3 = applyOpt (naValueMin args) withValueMin x2;
          x4 = applyOpt (naValueMax args) withValueMax x3;
          x5 = applyOpt (naValueStep args) withValueStep x4;
          x6 = applyOpt (naLabel args) withLabel x5
      in applyIf (truthy (naEntityCategory args)) (applyOpt (naEntityCategory args) withCategory) x6)"

definition numeric_noEndpoint :: "numericArgs \<Rightarrow> bool" where
  "numeric_noEndpoint args =
     (case naEndpointNames args of None \<Rightarrow> True | Some eps \<Rightarrow> eps = [''1''])"

definition numeric_exposes :: "numericArgs \<Rightarrow> expose list" where
  "numeric_exposes args =
     (if numeric_noEndpoint args then [createExpose args None]
      else (case naEndpointNames args of
              None \<Rightarrow> []
            | Some eps \<Rightarrow> map (\<lambda>ep. createExpose args (Some ep)) eps))"

text \<open>
  The value steps of the decoder: the raw value is asserted to be a number, scaled,
  asserted again, and rounded when a precision is declared.
\<close>

definition numeric_decodeValue :: "numericArgs \<Rightarrow> jsval \<Rightarrow> error + jsnum" where
  "numeric_decodeValue args raw =
     (case assertNumber raw of
        Inl err \<Rightarrow> Inl err
      | Inr v0 \<Rightarrow>
          let v1 = (case naScale args of
                      None \<Rightarrow> v0
                    | Some (ScaleConst d) \<Rightarrow> jsDiv v0 d
                    | Some (ScaleFun f) \<Rightarrow> f v0 From)
          in (case assertNumber (JNum v1) of
                Inl err \<Rightarrow> Inl err
              | Inr v2 \<Rightarrow>
                  Inr (case naPrecision args of
                         None \<Rightarrow> v2
                       | Some p \<Rightarrow> precisionRound v2 p)))"

text \<open>
  The decoder \<open>fromZigbee[0].convert\<close>. Its argument \<open>epName\<close> is what
  \<open>getEndpointName(msg, model, meta)\<close> of \<open>lib/utils\<close> gives for the message: an error
  when the definition declares no endpoint map, else the name the map has for the
  message's endpoint, if any. The decoder calls it once for each configured endpoint it
  tries, so with an empty or absent list it is never called. The result is the error
  thrown, \<open>None\<close> for no state update, or the state update.
\<close>

definition numeric_convert ::
  "numericArgs \<Rightarrow> error + string option \<Rightarrow> message \<Rightarrow> error + (string \<times> jsnum) list option" where
  "numeric_convert args epName msg =
     (case mdata msg (numeric_attributeKey args) of
        None \<Rightarrow> Inr None
      | Some raw \<Rightarrow>
          (case (case naEndpointNames args of
                   None \<Rightarrow> Inr None
                 | Some [] \<Rightarrow> Inr None
                 | Some eps \<Rightarrow>
                     (case epName of
                        Inl err \<Rightarrow> Inl err
                      | Inr n \<Rightarrow> Inr (List.find (\<lambda>e. n = Some e) eps))) of
             Inl err \<Rightarrow> Inl err
           | Inr ep \<Rightarrow>
               if naEndpointNames args \<noteq> None \<and> \<not> truthy ep then Inr None
               else
                 (case numeric_decodeValue args raw of
                    Inl err \<Rightarrow> Inl err
                  | Inr v \<Rightarrow>
                      let exposes = numeric_exposes args;
                          found = (if length exposes = 1 then Some (exposes ! 0)
                                   else List.find (\<lambda>x. endpoint x = ep) exposes)
                      in (case found of
                            None \<Rightarrow> Inl TypeError
                          | Some x \<Rightarrow> Inr (Some [(property x, v)])))))"

text \<open>
  The encoder \<open>toZigbee[0].convertSet\<close>, present when the access mode includes SET: the
  value written to the cluster, under the attribute, and the state fragment returned.
\<close>

record setResult =
  wCluster :: clusterKey
  wAttribute :: numericAttribute
  wValue :: jsnum
  wState :: "(string \<times> jsnum) list"

definition numeric_convertSet ::
  "numericArgs \<Rightarrow> (string \<Rightarrow> jsval \<Rightarrow> error + setResult) option" where
  "numeric_convertSet args =
     (if numeric_access args AND ea_SET \<noteq> 0 then
        Some (\<lambda>key v.
          case assertNumber v of
            Inl err \<Rightarrow> Inl err
          | Inr number \<Rightarrow>
              let p1 = (case naScale args of
                          None \<Rightarrow> number
                        | Some (ScaleConst d) \<Rightarrow> jsMul number d
                        | Some (ScaleFun f) \<Rightarrow> f number To)
              in (case assertNumber (JNum p1) of
                    Inl err \<Rightarrow> Inl err
                  | Inr p2 \<Rightarrow>
                      let payloadValue = (case naPrecision args of
                                            None \<Rightarrow> p2
                                          | Some p \<Rightarrow> precisionRound number p)
                      in Inr \<lparr>wCluster = naCluster args, wAttribute = naAttribute args,
                              wValue = payloadValue, wState = [(key, number)]\<rparr>))
      else None)"

section \<open>The battery\<close>

text \<open>\<open>voltageToPercentage?: string | {min: number, max: number}\<close>\<close>

datatype voltageToPercentage = CurveName string | CurveRange rat rat

record batteryArgs =
  baVoltageToPercentage :: "voltageToPercentage option"
  baDontDividePercentage :: "bool option"
  baPercentage :: "bool option"
  baVoltage :: "bool option"
  baLowStatus :: "bool option"

text \<open>\<open>args = {percentage: true, voltage: false, lowStatus: false, ..., ...args}\<close>\<close>

definition battery_percentage :: "batteryArgs \<Rightarrow> bool" where
  "battery_percentage args = (case baPercentage args of None \<Rightarrow> True | Some b \<Rightarrow> b)"

definition battery_voltage :: "batteryArgs \<Rightarrow> bool" where
  "battery_voltage args = (case baVoltage args of None \<Rightarrow> False | Some b \<Rightarrow> b)"

definition battery_lowStatus :: "batteryArgs \<Rightarrow> bool" where
  "battery_lowStatus args = (case baLowStatus args of None \<Rightarrow> False | Some b \<Rightarrow> b)"

record batteryMeta =
  bmVoltageToPercentage :: "voltageToPercentage option"
  bmDontDividePercentage :: "bool option"

text \<open>\<open>model.meta\<close>, of which the decoder reads \<open>battery\<close>.\<close>

record definitionMeta =
  dmBattery :: "batteryMeta option"

definition curveTruthy :: "voltageToPercentage option \<Rightarrow> bool" where
  "curveTruthy c =
     (case c of None \<Rightarrow> False | Some (CurveName s) \<Rightarrow> s \<noteq> [] | Some (CurveRange lo hi) \<Rightarrow> True)"

text \<open>The metadata the builder returns.\<close>

definition battery_meta :: "batteryArgs \<Rightarrow> definitionMeta" where
  "battery_meta args =
     \<lparr>dmBattery = Some
        \<lparr>bmVoltageToPercentage =
           (if curveTruthy (baVoltageToPercentage args) then baVoltageToPercentage args else None),
         bmDontDividePercentage =
           (if baDontDividePercentage args = Some True then Some True else None)\<rparr>\<rparr>"

record batteryPayload =
  battery :: "jsnum option"
  voltage :: "jsnum option"
  battery_low :: "bool option"

text \<open>\<open>model.meta && model.meta.battery && model.meta.battery.dontDividePercentage\<close>\<close>

definition metaDontDivide :: "definitionMeta option \<Rightarrow> bool" where
  "metaDontDivide m =
     (case m of
        None \<Rightarrow> False
      | Some dm \<Rightarrow> (case dmBattery dm of
                      None \<Rightarrow> False
                    | Some b \<Rightarrow> bmDontDividePercentage b = Some True))"

text \<open>\<open>model.meta && model.meta.battery && model.meta.battery.voltageToPercentage\<close>\<close>

definition metaCurve :: "definitionMeta option \<Rightarrow> voltageToPercentage option" where
  "metaCurve m =
     (case m of
        None \<Rightarrow> None
      | Some dm \<Rightarrow> (case dmBattery dm of
                      None \<Rightarrow> None
                    | Some b \<Rightarrow> (if curveTruthy (bmVoltageToPercentage b)
                                  then bmVoltageToPercentage b else None)))"

text \<open>\<open>msg.data.hasOwnProperty(k) && msg.data[k] < 255\<close>\<close>

definition reported :: "message \<Rightarrow> string \<Rightarrow> bool" where
  "reported msg k =
     (case mdata msg (KeyName k) of None \<Rightarrow> False | Some v \<Rightarrow> jsLess (toNumber v) (Fin 255))"

definition batteryLow :: "jsval option \<Rightarrow> nat \<Rightarrow> bool" where
  "batteryLow v k =
     gtZero (jsOr (bitAnd v k) (jsOr (bitAnd v (k + 1)) (jsOr (bitAnd v (k + 2)) (bitAnd v (k + 3)))))"

text \<open>
  The decoder of the battery. \<open>batteryVoltageToPercentage\<close> of \<open>lib/utils\<close> is not among
  the sources and is a parameter: it is given \<open>payload.voltage\<close>, which is absent when
  the voltage capability is off, and the curve of the metadata.
\<close>

definition battery_convert ::
  "batteryArgs \<Rightarrow> (jsnum option \<Rightarrow> voltageToPercentage \<Rightarrow> jsnum) \<Rightarrow> definitionMeta option \<Rightarrow>
   message \<Rightarrow> batteryPayload" where
  "battery_convert args batteryVoltageToPercentage modelMeta msg =
     (let p0 = \<lparr>battery = None, voltage = None, battery_low = None\<rparr>;
          p1 = (if reported msg ''batteryPercentageRemaining'' then
                  (case mdata msg (KeyName ''batteryPercentageRemaining'') of
                     None \<Rightarrow> p0
                   | Some raw \<Rightarrow>
                       let percentage = (if metaDontDivide modelMeta then toNumber raw
                                         else jsDiv (toNumber raw) (Fin 2))
                       in if battery_percentage args
                          then p0\<lparr>battery := Some (precisionRound percentage 2)\<rparr> else p0)
                else p0);
          p2 = (if reported msg ''batteryVoltage'' then
                  (case mdata msg (KeyName ''batteryVoltage'') of
                     None \<Rightarrow> p1
                   | Some raw \<Rightarrow>
                       let q = (if battery_voltage args
                                then p1\<lparr>voltage := Some (jsMul (toNumber raw) (Fin 100))\<rparr> else p1)
                       in (case metaCurve modelMeta of
                             None \<Rightarrow> q
                           | Some c \<Rightarrow> q\<lparr>battery := Some (batteryVoltageToPercentage (voltage q) c)\<rparr>))
                else p1)
      in (case mdata msg (KeyName ''batteryAlarmState'') of
            None \<Rightarrow> p2
          | Some s \<Rightarrow>
              let battery1Low = batteryLow (Some s) 0;
                  battery2Low = batteryLow (Some s) 10;
                  battery3Low = batteryLow (Some s) 20
              in if battery_lowStatus args
                 then p2\<lparr>battery_low := Some (battery1Low \<or> battery2Low \<or> battery3Low)\<rparr>
                 else p2))"

section \<open>The security zone\<close>

datatype iasZoneType =
  Occupancy | Contact | Smoke | Water_leak | Carbon_monoxide | Sos | Vibration | Alarm | Gas
  | Generic

datatype iasZoneAttribute =
  Alarm_1 | Alarm_2 | Tamper | Battery_low | Supervision_reports | Restore_reports | Ac_status
  | Test | Battery_defect

fun zoneTypeName :: "iasZoneType \<Rightarrow> string" where
  "zoneTypeName Occupancy = ''occupancy''"
| "zoneTypeName Contact = ''contact''"
| "zoneTypeName Smoke = ''smoke''"
| "zoneTypeName Water_leak = ''water_leak''"
| "zoneTypeName Carbon_monoxide = ''carbon_monoxide''"
| "zoneTypeName Sos = ''sos''"
| "zoneTypeName Vibration = ''vibration''"
| "zoneTypeName Alarm = ''alarm''"
| "zoneTypeName Gas = ''gas''"
| "zoneTypeName Generic = ''generic''"

record iasArgs =
  zoneType :: iasZoneType
  zoneAttributes :: "iasZoneAttribute list"
  alarmTimeout :: "bool option"

text \<open>The entries of \<open>exposeList\<close> under the zone types; it has none for \<open>generic\<close>.\<close>

fun exposeListZone :: "iasZoneType \<Rightarrow> expose option" where
  "exposeListZone Occupancy = Some (withDescription ''Indicates whether the device detected occupancy''
     (e_binary ''occupancy'' ea_STATE True False))"
| "exposeListZone Contact = Some (withDescription ''Indicates whether the device is opened or closed''
     (e_binary ''contact'' ea_STATE False True))"
| "exposeListZone Smoke = Some (withDescription ''Indicates whether the device detected smoke''
     (e_binary ''smoke'' ea_STATE True False))"
| "exposeListZone Water_leak = Some (withDescription ''Indicates whether the device detected a water leak''
     (e_binary ''water_leak'' ea_STATE True False))"
| "exposeListZone Carbon_monoxide = Some (withDescription ''Indicates whether the device detected carbon monoxide''
     (e_binary ''carbon_monoxide'' ea_STATE True False))"
| "exposeListZone Sos = Some (withDescription ''Indicates whether the SOS alarm is triggered''
     (withLabel ''SOS'' (e_binary ''sos'' ea_STATE True False)))"
| "exposeListZone Vibration = Some (withDescription ''Indicates whether the device detected vibration''
     (e_binary ''vibration'' ea_STATE True False))"
| "exposeListZone Alarm = Some (withDescription ''Indicates whether the alarm is triggered''
     (e_binary ''alarm'' ea_STATE True False))"
| "exposeListZone Gas = Some (withDescription ''Indicates whether the device detected gas''
     (e_binary ''gas'' ea_STATE True False))"
| "exposeListZone Generic = None"

text \<open>The entries of \<open>exposeList\<close> under the zone attributes.\<close>

fun exposeListAttribute :: "iasZoneAttribute \<Rightarrow> expose" where
  "exposeListAttribute Alarm_1 = withDescription ''Indicates whether IAS Zone alarm 1 is active''
     (e_binary ''alarm_1'' ea_STATE True False)"
| "exposeListAttribute Alarm_2 = withDescription ''Indicates whether IAS Zone alarm 2 is active''
     (e_binary ''alarm_2'' ea_STATE True False)"
| "exposeListAttribute Tamper = withCategory ''diagnostic''
     (withDescription ''Indicates whether the device is tampered''
       (e_binary ''tamper'' ea_STATE True False))"
| "exposeListAttribute Battery_low = withCategory ''diagnostic''
     (withDescription ''Indicates whether the battery of the device is almost empty''
       (e_binary ''battery_low'' ea_STATE True False))"
| "exposeListAttribute Supervision_reports = withCategory ''diagnostic''
     (withDescription ''Indicates whether the device issues reports on zone operational status''
       (e_binary ''supervision_reports'' ea_STATE True False))"
| "exposeListAttribute Restore_reports = withCategory ''diagnostic''
     (withDescription ''Indicates whether the device issues reports on alarm no longer being present''
       (e_binary ''restore_reports'' ea_STATE True False))"
| "exposeListAttribute Ac_status = withCategory ''diagnostic''
     (withDescription ''Indicates whether the device mains voltage supply is at fault''
       (e_binary ''ac_status'' ea_STATE True False))"
| "exposeListAttribute Test = withCategory ''diagnostic''
     (withDescription ''Indicates whether the device is currently performing a test''
       (e_binary ''test'' ea_STATE True False))"
| "exposeListAttribute Battery_defect = withCategory ''diagnostic''
     (withDescription ''Indicates whether the device battery is defective''
       (e_binary ''battery_defect'' ea_STATE True False))"

definition bothAlarms :: "iasArgs \<Rightarrow> bool" where
  "bothAlarms args = (Alarm_1 \<in> set (zoneAttributes args) \<and> Alarm_2 \<in> set (zoneAttributes args))"

definition alarm1Name :: "iasArgs \<Rightarrow> string" where
  "alarm1Name args =
     (if zoneType args = Generic then ''alarm_1''
      else if bothAlarms args then zoneTypeName (zoneType args) @ ''_alarm_1''
      else zoneTypeName (zoneType args))"

definition alarm2Name :: "iasArgs \<Rightarrow> string" where
  "alarm2Name args =
     (if zoneType args = Generic then ''alarm_2''
      else if bothAlarms args then zoneTypeName (zoneType args) @ ''_alarm_2''
      else zoneTypeName (zoneType args))"

text \<open>
  The descriptors of the builder. Reading the description of a missing entry of
  \<open>exposeList\<close> would throw; the branch that reads it is not taken for \<open>generic\<close>, the
  one zone type without an entry.
\<close>

definition iasZoneAlarm_exposes :: "iasArgs \<Rightarrow> error + expose list" where
  "iasZoneAlarm_exposes args =
     (if zoneType args = Generic then Inr (map exposeListAttribute (zoneAttributes args))
      else
        (case exposeListZone (zoneType args) of
           None \<Rightarrow> Inl TypeError
         | Some z \<Rightarrow>
             Inr ((if bothAlarms args then
                     [withDescription ((case description z of None \<Rightarrow> ''undefined'' | Some d \<Rightarrow> d) @ '' (alarm_1)'')
                        (e_binary (zoneTypeName (zoneType args) @ ''_alarm_1'') ea_STATE True False),
                      withDescription ((case description z of None \<Rightarrow> ''undefined'' | Some d \<Rightarrow> d) @ '' (alarm_2)'')
                        (e_binary (zoneTypeName (zoneType args) @ ''_alarm_2'') ea_STATE True False)]
                   else [z])
                  @ map exposeListAttribute
                      (filter (\<lambda>a. a \<noteq> Alarm_1 \<and> a \<noteq> Alarm_2) (zoneAttributes args)))))"

definition timeoutProperty :: "iasArgs \<Rightarrow> string" where
  "timeoutProperty args = zoneTypeName (zoneType args) @ ''_timeout''"

subsection \<open>Timers and the store\<close>

text \<open>
  The decoder's effects are on the timers of the event loop and on the store
  \<open>globalStore\<close>, both explicit here. A pending timer has the handle \<open>setTimeout\<close>
  returned, the time at which it is due on a clock in milliseconds (the time of the
  call plus the delay asked for), and the partial state its callback publishes.
  \<open>owner\<close> records the endpoint whose message scheduled the timer; the code does not
  read it.
\<close>

record timer =
  handle :: nat
  fireAt :: rat
  callback :: "(string \<times> bool) list"
  owner :: nat

record runtime =
  now :: rat
  nextHandle :: nat
  pending :: "timer list"
  store :: "nat \<Rightarrow> nat option"
  published :: "(rat \<times> (string \<times> bool) list) list"

definition initialRuntime :: runtime where
  "initialRuntime = \<lparr>now = 0, nextHandle = 0, pending = [], store = (\<lambda>ep. None), published = []\<rparr>"

text \<open>\<open>clearTimeout(h)\<close>; clearing \<open>undefined\<close> or a timer that has fired does nothing.\<close>

definition clearTimeout :: "nat option \<Rightarrow> runtime \<Rightarrow> runtime" where
  "clearTimeout h rt =
     (case h of None \<Rightarrow> rt | Some i \<Rightarrow> rt\<lparr>pending := filter (\<lambda>t. handle t \<noteq> i) (pending rt)\<rparr>)"

text \<open>
  The delay the runtime gives a timer, in milliseconds: the delay asked for when it
  lies between 1 and \<open>2 ^ 31 - 1\<close>, and 1 otherwise (a smaller or larger delay, an
  infinity, NaN).
\<close>

definition timerDelay :: "jsnum \<Rightarrow> rat" where
  "timerDelay delay =
     (case delay of Fin q \<Rightarrow> if 1 \<le> q \<and> q \<le> 2147483647 then q else 1 | _ \<Rightarrow> 1)"

text \<open>\<open>setTimeout(cb, delay)\<close>, called while a message of endpoint \<open>ep\<close> is decoded.\<close>

definition setTimeout :: "(string \<times> bool) list \<Rightarrow> jsnum \<Rightarrow> nat \<Rightarrow> runtime \<Rightarrow> nat \<times> runtime" where
  "setTimeout cb delay ep rt =
     (nextHandle rt,
      rt\<lparr>nextHandle := Suc (nextHandle rt),
         pending := pending rt @ [\<lparr>handle = nextHandle rt, fireAt = now rt + timerDelay delay,
                                   callback = cb, owner = ep\<rparr>]\<rparr>)"

text \<open>\<open>globalStore.getValue(endpoint, 'timer')\<close> and \<open>globalStore.putValue(endpoint, 'timer', h)\<close>\<close>

definition getValue :: "nat \<Rightarrow> runtime \<Rightarrow> nat option" where
  "getValue ep rt = store rt ep"

definition putValue :: "nat \<Rightarrow> nat \<Rightarrow> runtime \<Rightarrow> runtime" where
  "putValue ep h rt = rt\<lparr>store := (store rt)(ep := Some h)\<rparr>"

text \<open>
  \<open>options?.hasOwnProperty(timeoutProperty) ? Number(options[timeoutProperty]) : 90\<close>.
  \<open>Number\<close> of a number is that number.
\<close>

definition timeoutOf :: "iasArgs \<Rightarrow> (string \<Rightarrow> jsval option) option \<Rightarrow> jsnum" where
  "timeoutOf args options =
     (case options of
        None \<Rightarrow> Fin 90
      | Some opts \<Rightarrow>
          (case opts (timeoutProperty args) of None \<Rightarrow> Fin 90 | Some v \<Rightarrow> toNumber v))"

definition zoneStatusOf :: "message \<Rightarrow> jsval option" where
  "zoneStatusOf msg =
     (if mtype msg = CommandStatusChangeNotification then mdata msg (KeyName ''zonestatus'')
      else mdata msg (KeyName ''zoneStatus''))"

text \<open>What the timer's callback publishes: \<open>{[alarm1Name]: false, [alarm2Name]: false}\<close>\<close>

definition clearAlarms :: "iasArgs \<Rightarrow> (string \<times> bool) list" where
  "clearAlarms args = jsObject [(alarm1Name args, False), (alarm2Name args, False)]"

text \<open>The decoder \<open>fromZigbee[0].convert\<close>: the state update and the runtime after it.\<close>

definition iasZoneAlarm_convert ::
  "iasArgs \<Rightarrow> message \<Rightarrow> (string \<Rightarrow> jsval option) option \<Rightarrow> runtime \<Rightarrow>
   (string \<times> bool) list \<times> runtime" where
  "iasZoneAlarm_convert args msg options rt =
     (let zoneStatus = zoneStatusOf msg;
          rt' =
            (if alarmTimeout args = Some True then
               let timeout = timeoutOf args options;
                   rt1 = clearTimeout (getValue (mendpoint msg) rt) rt
               in if timeout \<noteq> Fin 0 then
                    (case setTimeout (clearAlarms args) (jsMul timeout (Fin 1000))
                            (mendpoint msg) rt1 of
                       (h, rt2) \<Rightarrow> putValue (mendpoint msg) h rt2)
                  else rt1
             else rt)
      in (jsObject
            [(alarm1Name args, gtZero (bitAnd zoneStatus 0)),
             (alarm2Name args, gtZero (bitAnd zoneStatus 1)),
             (''tamper'', gtZero (bitAnd zoneStatus 2)),
             (''battery_low'', gtZero (bitAnd zoneStatus 3)),
             (''supervision_reports'', gtZero (bitAnd zoneStatus 4)),
             (''restore_reports'', gtZero (bitAnd zoneStatus 5)),
             (''trouble'', gtZero (bitAnd zoneStatus 6)),
             (''ac_status'', gtZero (bitAnd zoneStatus 7)),
             (''test'', gtZero (bitAnd zoneStatus 8)),
             (''battery_defect'', gtZero (bitAnd zoneStatus 9))],
          rt'))"







section \<open>Properties\<close>

text \<open>
  C7. The configurator-construction step returns a configurator exactly when a
  reporting spec is declared or the access mode includes GET; otherwise it returns
  nothing.
\<close>

theorem setupConfigureForReporting_exists_iff:
  "(setupConfigureForReporting cluster attr config acc endpointNames \<noteq> None)
     = (config \<noteq> None \<or> acc AND ea_GET \<noteq> 0)"
  by (simp add: setupConfigureForReporting_def Let_def)

theorem setupConfigureForReporting_exists_iff_witness:
  "setupConfigureForReporting (ClusterName ''genOnOff'') (AttrName ''onOff'') None ea_STATE None
     = None \<and>
   setupConfigureForReporting (ClusterName ''genOnOff'') (AttrName ''onOff'') None ea_STATE_GET
     None \<noteq> None"
  using setupConfigureForReporting_exists_iff
          [of "ClusterName ''genOnOff''" "AttrName ''onOff''" None ea_STATE None]
        setupConfigureForReporting_exists_iff
          [of "ClusterName ''genOnOff''" "AttrName ''onOff''" None ea_STATE_GET None]
  by (simp add: ea_STATE_def ea_STATE_GET_def ea_GET_def)

text \<open>
  C6 at a concrete input: the string \<open>toString\<close>. It is not a name of the table, yet
  the guard \<open>time in timeLookup\<close> lets it through, since the table inherits a member of
  that name, and the function returns that member, which is not a number, instead of
  failing.
\<close>

theorem convertReportingConfigTime_inherited:
  "''toString'' \<notin> set (map fst timeLookup) \<and>
   convertReportingConfigTime (TimeStr ''toString'') = Inr JOther"
  by (simp add: convertReportingConfigTime_def jsIn_def jsGet_def timeLookup_def
        objectPrototypeKeys_def)

text \<open>
  The rest of the resolution is as the table has it: every name of the table resolves
  to the table's number of seconds, which is not negative, with \<open>MIN\<close> at 0 and \<open>MAX\<close>
  at 65000, the largest entry; a number passes through unchanged; and a string that is
  neither a name of the table nor the name of an inherited member fails with the
  configuration error.
\<close>

lemma convertReportingConfigTime_resolves:
  "(\<forall>kv \<in> set timeLookup.
      convertReportingConfigTime (TimeStr (fst kv)) = Inr (JNum (Fin (snd kv))) \<and>
      0 \<le> snd kv \<and> snd kv \<le> 65000) \<and>
   convertReportingConfigTime (TimeStr ''MIN'') = Inr (JNum (Fin 0)) \<and>
   convertReportingConfigTime (TimeStr ''MAX'') = Inr (JNum (Fin 65000)) \<and>
   convertReportingConfigTime (TimeNum n) = Inr (JNum n) \<and>
   (s \<notin> set (map fst timeLookup) \<and> s \<notin> set objectPrototypeKeys \<longrightarrow>
      convertReportingConfigTime (TimeStr s) = Inl (UnknownReportingTime s))"
  by (simp add: convertReportingConfigTime_def jsIn_def jsGet_def timeLookup_def)

lemma convertReportingConfigTime_resolves_example:
  "convertReportingConfigTime (TimeStr ''1_HOUR'') = Inr (JNum (Fin 3600)) \<and>
   convertReportingConfigTime (TimeNum (Fin 42)) = Inr (JNum (Fin 42)) \<and>
   convertReportingConfigTime (TimeStr ''2_HOURS'') = Inl (UnknownReportingTime ''2_HOURS'')"
proof -
  have known: "(''1_HOUR'', 3600) \<in> set timeLookup"
    by (simp add: timeLookup_def)
  have unknown: "''2_HOURS'' \<notin> set (map fst timeLookup) \<and> ''2_HOURS'' \<notin> set objectPrototypeKeys"
    by (simp add: timeLookup_def objectPrototypeKeys_def)
  from convertReportingConfigTime_resolves [of "Fin 42" "''2_HOURS''"] known unknown
  show ?thesis by fastforce
qed

text \<open>
  C1. With the metering cluster alone and forced constants for both power and energy,
  the builder fails with the configuration error exactly when the two
  divisor/multiplier pairs differ. The failure is the builder's result: no bundle, and
  with it no configurator that could talk to the device, is produced. With equal pairs
  the builder returns its bundle.
\<close>

theorem electricityMeter_mismatch:
  assumes "emCluster args = Some Metering"
    and "emPower args = Forced p" and "emEnergy args = Forced e"
  shows "(divisor p \<noteq> divisor e \<or> multiplier p \<noteq> multiplier e \<longrightarrow>
            electricityMeter args = Inl MeterDivisorMismatch) \<and>
         (divisor p = divisor e \<and> multiplier p = multiplier e \<longrightarrow>
            (\<exists>bundle. electricityMeter args = Inr bundle))"
  using assms
  by (auto simp add: electricityMeter_def isObject_def divisorOf_def multiplierOf_def Let_def)

theorem electricityMeter_mismatch_witness:
  "electricityMeter
     \<lparr>emCluster = Some Metering, emCurrent = Unset,
      emPower = Forced \<lparr>multiplier = Some 1, divisor = Some 10\<rparr>, emVoltage = Unset,
      emEnergy = Forced \<lparr>multiplier = Some 1, divisor = Some 5\<rparr>\<rparr>
     = Inl MeterDivisorMismatch \<and>
   (\<exists>bundle. electricityMeter
     \<lparr>emCluster = Some Metering, emCurrent = Unset,
      emPower = Forced \<lparr>multiplier = Some 1, divisor = Some 10\<rparr>, emVoltage = Unset,
      emEnergy = Forced \<lparr>multiplier = Some 1, divisor = Some 10\<rparr>\<rparr> = Inr bundle)"
  using electricityMeter_mismatch
          [of "\<lparr>emCluster = Some Metering, emCurrent = Unset,
                emPower = Forced \<lparr>multiplier = Some 1, divisor = Some 10\<rparr>, emVoltage = Unset,
                emEnergy = Forced \<lparr>multiplier = Some 1, divisor = Some 5\<rparr>\<rparr>"
              "\<lparr>multiplier = Some 1, divisor = Some 10\<rparr>"
              "\<lparr>multiplier = Some 1, divisor = Some 5\<rparr>"]
        electricityMeter_mismatch
          [of "\<lparr>emCluster = Some Metering, emCurrent = Unset,
                emPower = Forced \<lparr>multiplier = Some 1, divisor = Some 10\<rparr>, emVoltage = Unset,
                emEnergy = Forced \<lparr>multiplier = Some 1, divisor = Some 10\<rparr>\<rparr>"
              "\<lparr>multiplier = Some 1, divisor = Some 10\<rparr>"
              "\<lparr>multiplier = Some 1, divisor = Some 10\<rparr>"]
  by simp

subsection \<open>Bit tests\<close>

lemma gtZero_iff: "gtZero a = (a \<noteq> 0 \<and> \<not> bit a 31)"
proof -
  have "sint a < 0 \<longleftrightarrow> bit a 31"
    using bit_last_iff [of a] by simp
  moreover have "sint a = 0 \<longleftrightarrow> a = 0"
    by (rule signed_eq_0_iff)
  ultimately show ?thesis
    unfolding gtZero_def by linarith
qed

lemma jsTruncate_of_int: "jsTruncate (of_int n) = n"
  by (simp add: jsTruncate_def)

lemma bitAnd_nonneg: "k < 31 \<Longrightarrow> \<not> bit (bitAnd v k) 31"
  by (simp add: bitAnd_def bit_simps)

lemma gtZero_bitAnd:
  "k < 31 \<Longrightarrow> gtZero (bitAnd (Some (JNum (Fin (of_int n)))) k) = bit n k"
  by (simp add: gtZero_iff bitAnd_def toNumber_def toInt32_def jsTruncate_of_int
        and_exp_eq_0_iff_not_bit bit_simps)

lemma gtZero_jsOr: "\<not> bit a 31 \<Longrightarrow> gtZero (jsOr a b) = (gtZero a \<or> gtZero b)"
  by (simp add: gtZero_iff jsOr_def)

lemma batteryLow_bits:
  assumes "k + 3 < 31"
  shows "batteryLow (Some (JNum (Fin (of_int n)))) k
           = (bit n k \<or> bit n (k + 1) \<or> bit n (k + 2) \<or> bit n (k + 3))"
proof -
  let ?v = "Some (JNum (Fin (of_int n)))"
  have nn: "\<And>j. j \<le> k + 3 \<Longrightarrow> \<not> bit (bitAnd ?v j) 31"
    using assms by (intro bitAnd_nonneg) simp
  have gz: "\<And>j. j \<le> k + 3 \<Longrightarrow> gtZero (bitAnd ?v j) = bit n j"
    using assms by (intro gtZero_bitAnd) simp
  show ?thesis
    unfolding batteryLow_def
    by (simp add: gtZero_jsOr nn gz)
qed

subsection \<open>The battery\<close>

text \<open>
  C5. With the low-status capability enabled, a message carrying the battery-alarm
  bitmask gives \<open>battery_low\<close> true exactly when one of the bits 0 to 3, 10 to 13 or 20
  to 23 of the bitmask is set.
\<close>

theorem battery_low_iff:
  assumes "battery_lowStatus args"
    and "mdata msg (KeyName ''batteryAlarmState'') = Some (JNum (Fin (of_int n)))"
  shows "battery_low (battery_convert args f modelMeta msg)
           = Some (\<exists>i \<in> {0, 1, 2, 3, 10, 11, 12, 13, 20, 21, 22, 23}. bit n i)"
proof -
  have "battery_low (battery_convert args f modelMeta msg)
          = Some (batteryLow (Some (JNum (Fin (of_int n)))) 0 \<or>
                  batteryLow (Some (JNum (Fin (of_int n)))) 10 \<or>
                  batteryLow (Some (JNum (Fin (of_int n)))) 20)"
    using assms
    by (simp add: battery_convert_def Let_def split: option.splits)
  then show ?thesis
    by (simp add: batteryLow_bits numeral_2_eq_2 [symmetric] del: One_nat_def)
qed

theorem battery_low_iff_witness:
  "battery_low (battery_convert
      \<lparr>baVoltageToPercentage = None, baDontDividePercentage = None, baPercentage = None,
       baVoltage = None, baLowStatus = Some True\<rparr>
      (\<lambda>v c. Fin 0) None
      \<lparr>mtype = AttributeReport, mdata = [KeyName ''batteryAlarmState'' \<mapsto> JNum (Fin 1)],
       mendpoint = 1\<rparr>) = Some True \<and>
   battery_low (battery_convert
      \<lparr>baVoltageToPercentage = None, baDontDividePercentage = None, baPercentage = None,
       baVoltage = None, baLowStatus = Some True\<rparr>
      (\<lambda>v c. Fin 0) None
      \<lparr>mtype = AttributeReport, mdata = [KeyName ''batteryAlarmState'' \<mapsto> JNum (Fin 2098176)],
       mendpoint = 1\<rparr>) = Some True \<and>
   battery_low (battery_convert
      \<lparr>baVoltageToPercentage = None, baDontDividePercentage = None, baPercentage = None,
       baVoltage = None, baLowStatus = Some True\<rparr>
      (\<lambda>v c. Fin 0) None
      \<lparr>mtype = AttributeReport, mdata = [KeyName ''batteryAlarmState'' \<mapsto> JNum (Fin 16)],
       mendpoint = 1\<rparr>) = Some False"
proof -
  have b1: "bit (1::int) 0" by simp
  have b2: "bit (2098176::int) 10" by (simp add: bit_iff_odd)
  have b3: "\<not> (\<exists>i \<in> {0, 1, 2, 3, 10, 11, 12, 13, 20, 21, 22, 23}. bit (16::int) i)"
    by (simp add: bit_iff_odd)
  show ?thesis
    using battery_low_iff
            [of "\<lparr>baVoltageToPercentage = None, baDontDividePercentage = None,
                  baPercentage = None, baVoltage = None, baLowStatus = Some True\<rparr>"
                "\<lparr>mtype = AttributeReport,
                  mdata = [KeyName ''batteryAlarmState'' \<mapsto> JNum (Fin 1)], mendpoint = 1\<rparr>"
                1 "\<lambda>v c. Fin 0" None]
          battery_low_iff
            [of "\<lparr>baVoltageToPercentage = None, baDontDividePercentage = None,
                  baPercentage = None, baVoltage = None, baLowStatus = Some True\<rparr>"
                "\<lparr>mtype = AttributeReport,
                  mdata = [KeyName ''batteryAlarmState'' \<mapsto> JNum (Fin 2098176)],
                  mendpoint = 1\<rparr>"
                2098176 "\<lambda>v c. Fin 0" None]
          battery_low_iff
            [of "\<lparr>baVoltageToPercentage = None, baDontDividePercentage = None,
                  baPercentage = None, baVoltage = None, baLowStatus = Some True\<rparr>"
                "\<lparr>mtype = AttributeReport,
                  mdata = [KeyName ''batteryAlarmState'' \<mapsto> JNum (Fin 16)], mendpoint = 1\<rparr>"
                16 "\<lambda>v c. Fin 0" None]
          b1 b2 b3
    by (simp add: battery_lowStatus_def)
qed

lemma precisionRound_hundredths:
  "precisionRound (Fin (of_int k / 100)) 2 = Fin (of_int k / 100)"
proof -
  have "\<lfloor>(of_int k :: rat) + 1 / 2\<rfloor> = k"
    by linarith
  then show ?thesis
    by (simp add: precisionRound_def mathRound_def Let_def)
qed

lemma precisionRound_half: "precisionRound (Fin (of_nat raw / 2)) 2 = Fin (of_nat raw / 2)"
  using precisionRound_hundredths [of "50 * int raw"] by simp

lemma precisionRound_whole: "precisionRound (Fin (of_nat raw)) 2 = Fin (of_nat raw)"
  using precisionRound_hundredths [of "100 * int raw"] by simp

text \<open>
  C4, amended. With the percentage capability enabled (the default), and unless the
  message also carries a battery voltage below 255 while the device metadata has a
  voltage-to-percentage curve (the percentage is then derived from the voltage), a
  message carrying the remaining-percentage attribute with an integer raw value gives:
  no percentage update for a raw value of 255 (or above); half the raw value when
  halving is not disabled in the device metadata; the raw value unchanged when it is.
\<close>

theorem battery_percentage_decode:
  assumes "battery_percentage args"
    and "mdata msg (KeyName ''batteryPercentageRemaining'') = Some (JNum (Fin (of_nat raw)))"
    and "\<not> (reported msg ''batteryVoltage'' \<and> metaCurve modelMeta \<noteq> None)"
  shows "battery (battery_convert args f modelMeta msg) =
           (if raw < 255
            then Some (Fin (if metaDontDivide modelMeta then of_nat raw else of_nat raw / 2))
            else None)"
proof -
  have rep: "reported msg ''batteryPercentageRemaining'' = (raw < 255)"
    using assms(2) by (simp add: reported_def toNumber_def)
  show ?thesis
    using assms rep
    by (auto simp add: battery_convert_def Let_def toNumber_def precisionRound_half
          precisionRound_whole split: option.splits)
qed

theorem battery_percentage_decode_witness:
  "battery (battery_convert
      \<lparr>baVoltageToPercentage = None, baDontDividePercentage = None, baPercentage = None,
       baVoltage = None, baLowStatus = None\<rparr>
      (\<lambda>v c. Fin 0) None
      \<lparr>mtype = AttributeReport,
       mdata = [KeyName ''batteryPercentageRemaining'' \<mapsto> JNum (Fin 200)],
       mendpoint = 1\<rparr>) = Some (Fin 100) \<and>
   battery (battery_convert
      \<lparr>baVoltageToPercentage = None, baDontDividePercentage = None, baPercentage = None,
       baVoltage = None, baLowStatus = None\<rparr>
      (\<lambda>v c. Fin 0) None
      \<lparr>mtype = AttributeReport,
       mdata = [KeyName ''batteryPercentageRemaining'' \<mapsto> JNum (Fin 255)],
       mendpoint = 1\<rparr>) = None"
  using battery_percentage_decode
          [of "\<lparr>baVoltageToPercentage = None, baDontDividePercentage = None, baPercentage = None,
                baVoltage = None, baLowStatus = None\<rparr>"
              "\<lparr>mtype = AttributeReport,
                mdata = [KeyName ''batteryPercentageRemaining'' \<mapsto> JNum (Fin 200)],
                mendpoint = 1\<rparr>"
              200 None "\<lambda>v c. Fin 0"]
        battery_percentage_decode
          [of "\<lparr>baVoltageToPercentage = None, baDontDividePercentage = None, baPercentage = None,
                baVoltage = None, baLowStatus = None\<rparr>"
              "\<lparr>mtype = AttributeReport,
                mdata = [KeyName ''batteryPercentageRemaining'' \<mapsto> JNum (Fin 255)],
                mendpoint = 1\<rparr>"
              255 None "\<lambda>v c. Fin 0"]
  by (simp add: battery_percentage_def reported_def metaCurve_def metaDontDivide_def)

text \<open>
  C4, as stated, for every message carrying the remaining-percentage attribute. With
  the percentage capability switched off a raw value of 200 gives no percentage at
  all; and with a voltage-to-percentage curve in the metadata, a message carrying the
  sentinel 255 together with a battery voltage does give a percentage update, the one
  derived from the voltage.
\<close>

theorem battery_percentage_counterexample:
  "battery (battery_convert
      \<lparr>baVoltageToPercentage = None, baDontDividePercentage = None, baPercentage = Some False,
       baVoltage = None, baLowStatus = None\<rparr>
      (\<lambda>v c. Fin 50) None
      \<lparr>mtype = AttributeReport,
       mdata = [KeyName ''batteryPercentageRemaining'' \<mapsto> JNum (Fin 200)],
       mendpoint = 1\<rparr>) = None \<and>
   battery (battery_convert
      \<lparr>baVoltageToPercentage = Some (CurveName ''3V_2100''), baDontDividePercentage = None,
       baPercentage = None, baVoltage = None, baLowStatus = None\<rparr>
      (\<lambda>v c. Fin 50)
      (Some (battery_meta
         \<lparr>baVoltageToPercentage = Some (CurveName ''3V_2100''), baDontDividePercentage = None,
          baPercentage = None, baVoltage = None, baLowStatus = None\<rparr>))
      \<lparr>mtype = ReadResponse,
       mdata = [KeyName ''batteryPercentageRemaining'' \<mapsto> JNum (Fin 255),
                KeyName ''batteryVoltage'' \<mapsto> JNum (Fin 30)],
       mendpoint = 1\<rparr>) = Some (Fin 50)"
  by (simp add: battery_convert_def battery_meta_def battery_percentage_def battery_voltage_def
        battery_lowStatus_def reported_def metaCurve_def metaDontDivide_def curveTruthy_def
        toNumber_def Let_def)

text \<open>
  C2 at a concrete input: constant divisor 10, precision 1, value 5. The encoder rounds
  the capability value, not the scaled one, and writes 5 instead of 50; decoding the
  written value gives 0.5, not 5.
\<close>

theorem numeric_roundTrip_lost:
  "\<exists>convertSet w.
     numeric_convertSet
       \<lparr>naName = ''level'', naCluster = ClusterName ''genAnalogOutput'',
        naAttribute = NamedAttribute ''presentValue'', naDescription = ''Level'',
        naAccess = None, naUnit = None, naEndpointNames = None, naReporting = None,
        naValueMin = None, naValueMax = None, naValueStep = None,
        naScale = Some (ScaleConst (Fin 10)), naLabel = None, naEntityCategory = None,
        naPrecision = Some 1\<rparr> = Some convertSet \<and>
     convertSet ''level'' (JNum (Fin 5)) = Inr w \<and>
     wValue w = Fin 5 \<and>
     numeric_convert
       \<lparr>naName = ''level'', naCluster = ClusterName ''genAnalogOutput'',
        naAttribute = NamedAttribute ''presentValue'', naDescription = ''Level'',
        naAccess = None, naUnit = None, naEndpointNames = None, naReporting = None,
        naValueMin = None, naValueMax = None, naValueStep = None,
        naScale = Some (ScaleConst (Fin 10)), naLabel = None, naEntityCategory = None,
        naPrecision = Some 1\<rparr>
       (Inr None)
       \<lparr>mtype = ReadResponse, mdata = [KeyName ''presentValue'' \<mapsto> JNum (wValue w)],
        mendpoint = 1\<rparr>
     = Inr (Some [(''level'', Fin (1 / 2))])"
proof -
  have f1: "\<lfloor>(101::rat) / 2\<rfloor> = 50" by linarith
  have f2: "\<lfloor>(11::rat) / 2\<rfloor> = 5" by linarith
  show ?thesis
  by (simp add: f1 f2 numeric_convertSet_def numeric_convert_def numeric_decodeValue_def
        numeric_access_def ea_def ea_ALL_def ea_SET_def assertNumber_def precisionRound_def
        mathRound_def numeric_attributeKey_def numeric_exposes_def numeric_noEndpoint_def
        createExpose_def applyIf_def applyOpt_def truthy_def withDescription_def e_numeric_def
        e_base_def Let_def)
qed

subsection \<open>The numeric decoder\<close>

lemma endpoint_createExpose:
  "endpoint (createExpose args ep) = (if truthy ep then ep else None)"
  by (simp add: createExpose_def Let_def applyIf_def applyOpt_def truthy_def withDescription_def
        withEndpoint_def withUnit_def withValueMin_def withValueMax_def withValueStep_def
        withLabel_def withCategory_def e_numeric_def e_base_def split: option.splits)

lemma property_createExpose:
  "property (createExpose args ep) =
     (if truthy ep then naName args @ ''_'' @ the ep else naName args)"
  by (simp add: createExpose_def Let_def applyIf_def applyOpt_def truthy_def withDescription_def
        withEndpoint_def withUnit_def withValueMin_def withValueMax_def withValueStep_def
        withLabel_def withCategory_def e_numeric_def e_base_def split: option.splits)

lemma find_name: "a \<in> set eps \<Longrightarrow> List.find (\<lambda>e. Some a = Some e) eps = Some a"
  by (induction eps) auto

lemma find_name_none:
  "\<forall>e \<in> set eps. n \<noteq> Some e \<Longrightarrow> List.find (\<lambda>e. n = Some e) eps = None"
  by (induction eps) auto

lemma find_createExpose:
  "a \<in> set eps \<Longrightarrow> a \<noteq> [] \<Longrightarrow>
   List.find (\<lambda>x. endpoint x = Some a) (map (\<lambda>ep. createExpose args (Some ep)) eps)
     = Some (createExpose args (Some a))"
  by (induction eps) (auto simp add: endpoint_createExpose truthy_def)

lemma numeric_convert_absent:
  "mdata msg (numeric_attributeKey args) = None \<Longrightarrow> numeric_convert args epName msg = Inr None"
  by (simp add: numeric_convert_def)

lemma numeric_convert_unmatched:
  assumes "naEndpointNames args = Some eps" and "\<forall>e \<in> set eps. n \<noteq> Some e"
  shows "numeric_convert args (Inr n) msg = Inr None"
proof (cases "mdata msg (numeric_attributeKey args)")
  case None
  then show ?thesis by (simp add: numeric_convert_def)
next
  case (Some raw)
  have none: "List.find (\<lambda>e. n = Some e) eps = None"
    using assms(2) by (rule find_name_none)
  show ?thesis
  proof (cases eps)
    case Nil
    with Some assms(1) show ?thesis
      by (simp add: numeric_convert_def truthy_def)
  next
    case (Cons e es)
    with Some assms(1) none show ?thesis
      by (simp add: numeric_convert_def truthy_def del: find.simps)
  qed
qed

lemma numeric_convert_matched:
  assumes "mdata msg (numeric_attributeKey args) = Some raw"
    and "naEndpointNames args = Some eps" and "eps \<noteq> [''1'']"
    and "a \<in> set eps" and "a \<noteq> []"
  shows "numeric_convert args (Inr (Some a)) msg =
           (case numeric_decodeValue args raw of
              Inl err \<Rightarrow> Inl err
            | Inr v \<Rightarrow> Inr (Some [(naName args @ ''_'' @ a, v)]))"
proof -
  have exposes: "numeric_exposes args = map (\<lambda>ep. createExpose args (Some ep)) eps"
    using assms by (simp add: numeric_exposes_def numeric_noEndpoint_def)
  have found: "(if length (numeric_exposes args) = 1 then Some (numeric_exposes args ! 0)
                else List.find (\<lambda>x. endpoint x = Some a) (numeric_exposes args))
               = Some (createExpose args (Some a))"
  proof (cases "length eps = 1")
    case True
    then obtain e where "eps = [e]"
      by (cases eps) auto
    with assms(4) show ?thesis
      by (simp add: exposes)
  next
    case False
    then show ?thesis
      using find_createExpose [OF assms(4,5)] by (simp add: exposes)
  qed
  have key: "property (createExpose args (Some a)) = naName args @ ''_'' @ a"
    using assms(5) by (simp add: property_createExpose truthy_def)
  obtain e es where eps: "eps = e # es"
    using assms(4) by (cases eps) auto
  have sel: "List.find (\<lambda>e. Some a = Some e) eps = Some a"
    using assms(4) by (rule find_name)
  show ?thesis
    using assms(1,2,5) sel found key
    by (simp add: numeric_convert_def eps truthy_def Let_def split: sum.splits)
qed

lemma numeric_convert_single:
  assumes "mdata msg (numeric_attributeKey args) = Some raw"
    and "naEndpointNames args = Some [''1'']"
  shows "numeric_convert args (Inr (Some ''1'')) msg =
           (case numeric_decodeValue args raw of
              Inl err \<Rightarrow> Inl err
            | Inr v \<Rightarrow> Inr (Some [(naName args, v)]))"
  using assms
  by (simp add: numeric_convert_def numeric_exposes_def numeric_noEndpoint_def truthy_def
        property_createExpose Let_def split: sum.splits)

text \<open>
  C8, as stated, for every inbound message. When the definition declares no endpoint
  map, the name of a message's endpoint cannot be resolved and matches none of the
  configured endpoints; with endpoint qualifiers configured and the attribute present,
  the decoder then raises the error of the resolution instead of returning no update.
\<close>

theorem numeric_convert_routing_counterexample:
  "numeric_convert
     \<lparr>naName = ''temperature'', naCluster = ClusterName ''msTemperatureMeasurement'',
      naAttribute = NamedAttribute ''measuredValue'', naDescription = ''Measured temperature'',
      naAccess = Some Access_STATE_GET, naUnit = None, naEndpointNames = Some [''l1'', ''l2''],
      naReporting = None, naValueMin = None, naValueMax = None, naValueStep = None,
      naScale = Some (ScaleConst (Fin 100)), naLabel = None, naEntityCategory = None,
      naPrecision = None\<rparr>
     (Inl NoEndpointDefined)
     \<lparr>mtype = AttributeReport, mdata = [KeyName ''measuredValue'' \<mapsto> JNum (Fin 2150)],
      mendpoint = 3\<rparr>
     = Inl NoEndpointDefined"
  by (simp add: numeric_convert_def numeric_attributeKey_def)

text \<open>
  C8, amended. Provided the name of the message's endpoint resolves (the definition
  declares an endpoint map; \<open>n\<close> is the name found, if any), the decoder of the numeric
  builder returns no state update, and no error, when endpoint qualifiers are
  configured and \<open>n\<close> is none of them; and it does so, whether or not the name
  resolves, when the configured attribute is absent from the message. With
  endpoint-qualified descriptors (a list other than the single endpoint 1), a message
  whose endpoint name resolves to a configured \<open>a\<close> and which carries the attribute
  gives the update of the one key \<open>name_a\<close>, the capability of that endpoint, with the
  decoded value (or the decoder's error for a value that is not a number); the keys of
  two different endpoints differ.
\<close>

theorem numeric_convert_routing:
  "(mdata msg (numeric_attributeKey args) = None \<longrightarrow>
      numeric_convert args epName msg = Inr None) \<and>
   (epName = Inr n \<and> naEndpointNames args = Some eps \<and> (\<forall>e \<in> set eps. n \<noteq> Some e) \<longrightarrow>
      numeric_convert args epName msg = Inr None) \<and>
   (epName = Inr (Some a) \<and> mdata msg (numeric_attributeKey args) = Some raw \<and>
    naEndpointNames args = Some eps \<and> eps \<noteq> [''1''] \<and> a \<in> set eps \<and> a \<noteq> [] \<longrightarrow>
      numeric_convert args epName msg =
        (case numeric_decodeValue args raw of
           Inl err \<Rightarrow> Inl err
         | Inr v \<Rightarrow> Inr (Some [(naName args @ ''_'' @ a, v)]))) \<and>
   (a \<noteq> b \<longrightarrow> naName args @ ''_'' @ a \<noteq> naName args @ ''_'' @ b)"
  using numeric_convert_absent numeric_convert_unmatched numeric_convert_matched
  by simp

theorem numeric_convert_routing_witness:
  "numeric_convert
     \<lparr>naName = ''temperature'', naCluster = ClusterName ''msTemperatureMeasurement'',
      naAttribute = NamedAttribute ''measuredValue'', naDescription = ''Measured temperature'',
      naAccess = Some Access_STATE_GET, naUnit = None, naEndpointNames = Some [''l1'', ''l2''],
      naReporting = None, naValueMin = None, naValueMax = None, naValueStep = None,
      naScale = Some (ScaleConst (Fin 100)), naLabel = None, naEntityCategory = None,
      naPrecision = None\<rparr>
     (Inr (Some ''l2''))
     \<lparr>mtype = AttributeReport, mdata = [KeyName ''measuredValue'' \<mapsto> JNum (Fin 2150)],
      mendpoint = 2\<rparr>
     = Inr (Some [(''temperature_l2'', Fin (43 / 2))]) \<and>
   numeric_convert
     \<lparr>naName = ''temperature'', naCluster = ClusterName ''msTemperatureMeasurement'',
      naAttribute = NamedAttribute ''measuredValue'', naDescription = ''Measured temperature'',
      naAccess = Some Access_STATE_GET, naUnit = None, naEndpointNames = Some [''l1'', ''l2''],
      naReporting = None, naValueMin = None, naValueMax = None, naValueStep = None,
      naScale = Some (ScaleConst (Fin 100)), naLabel = None, naEntityCategory = None,
      naPrecision = None\<rparr>
     (Inr (Some ''l3''))
     \<lparr>mtype = AttributeReport, mdata = [KeyName ''measuredValue'' \<mapsto> JNum (Fin 2150)],
      mendpoint = 3\<rparr>
     = Inr None \<and>
   numeric_convert
     \<lparr>naName = ''temperature'', naCluster = ClusterName ''msTemperatureMeasurement'',
      naAttribute = NamedAttribute ''measuredValue'', naDescription = ''Measured temperature'',
      naAccess = Some Access_STATE_GET, naUnit = None, naEndpointNames = Some [''l1'', ''l2''],
      naReporting = None, naValueMin = None, naValueMax = None, naValueStep = None,
      naScale = Some (ScaleConst (Fin 100)), naLabel = None, naEntityCategory = None,
      naPrecision = None\<rparr>
     (Inr (Some ''l2''))
     \<lparr>mtype = AttributeReport, mdata = [KeyName ''minMeasuredValue'' \<mapsto> JNum (Fin 0)],
      mendpoint = 2\<rparr>
     = Inr None"
  using numeric_convert_routing
          [where args = "\<lparr>naName = ''temperature'',
                   naCluster = ClusterName ''msTemperatureMeasurement'',
                   naAttribute = NamedAttribute ''measuredValue'',
                   naDescription = ''Measured temperature'',
                   naAccess = Some Access_STATE_GET, naUnit = None,
                   naEndpointNames = Some [''l1'', ''l2''],
                   naReporting = None, naValueMin = None, naValueMax = None, naValueStep = None,
                   naScale = Some (ScaleConst (Fin 100)), naLabel = None,
                   naEntityCategory = None, naPrecision = None\<rparr>"
             and msg = "\<lparr>mtype = AttributeReport,
                   mdata = [KeyName ''measuredValue'' \<mapsto> JNum (Fin 2150)], mendpoint = 2\<rparr>"
             and eps = "[''l1'', ''l2'']" and raw = "JNum (Fin 2150)" and a = "''l2''"
             and n = "Some ''l2''" and b = "''l1''" and epName = "Inr (Some ''l2'')"]
        numeric_convert_routing
          [where args = "\<lparr>naName = ''temperature'',
                   naCluster = ClusterName ''msTemperatureMeasurement'',
                   naAttribute = NamedAttribute ''measuredValue'',
                   naDescription = ''Measured temperature'',
                   naAccess = Some Access_STATE_GET, naUnit = None,
                   naEndpointNames = Some [''l1'', ''l2''],
                   naReporting = None, naValueMin = None, naValueMax = None, naValueStep = None,
                   naScale = Some (ScaleConst (Fin 100)), naLabel = None,
                   naEntityCategory = None, naPrecision = None\<rparr>"
             and msg = "\<lparr>mtype = AttributeReport,
                   mdata = [KeyName ''measuredValue'' \<mapsto> JNum (Fin 2150)], mendpoint = 3\<rparr>"
             and eps = "[''l1'', ''l2'']" and raw = "JNum (Fin 2150)" and a = "''l2''"
             and n = "Some ''l3''" and b = "''l1''" and epName = "Inr (Some ''l3'')"]
        numeric_convert_routing
          [where args = "\<lparr>naName = ''temperature'',
                   naCluster = ClusterName ''msTemperatureMeasurement'',
                   naAttribute = NamedAttribute ''measuredValue'',
                   naDescription = ''Measured temperature'',
                   naAccess = Some Access_STATE_GET, naUnit = None,
                   naEndpointNames = Some [''l1'', ''l2''],
                   naReporting = None, naValueMin = None, naValueMax = None, naValueStep = None,
                   naScale = Some (ScaleConst (Fin 100)), naLabel = None,
                   naEntityCategory = None, naPrecision = None\<rparr>"
             and msg = "\<lparr>mtype = AttributeReport,
                   mdata = [KeyName ''minMeasuredValue'' \<mapsto> JNum (Fin 0)], mendpoint = 2\<rparr>"
             and eps = "[''l1'', ''l2'']" and raw = "JNum (Fin 2150)" and a = "''l2''"
             and n = "Some ''l2''" and b = "''l1''" and epName = "Inr (Some ''l2'')"]
  by (simp add: numeric_attributeKey_def numeric_decodeValue_def assertNumber_def)

subsection \<open>The security zone\<close>

lemma zoneTypeName_not_attribute:
  "name (exposeListAttribute a) \<noteq> zoneTypeName zt"
  by (cases a; cases zt)
     (simp_all add: withDescription_def withCategory_def e_binary_def e_base_def)

lemma zoneTypeName_alarm_not_attribute:
  "name (exposeListAttribute a) \<noteq> zoneTypeName zt @ ''_alarm_1'' \<and>
   name (exposeListAttribute a) \<noteq> zoneTypeName zt @ ''_alarm_2''"
  by (cases a; cases zt)
     (simp_all add: withDescription_def withCategory_def e_binary_def e_base_def)

lemma exposeListZone_named:
  "zt \<noteq> Generic \<Longrightarrow> \<exists>z. exposeListZone zt = Some z \<and> name z = zoneTypeName zt \<and>
     property z = zoneTypeName zt \<and> description z \<noteq> None"
  by (cases zt) (simp_all add: withDescription_def withLabel_def e_binary_def e_base_def)

text \<open>
  C9. For a zone type other than generic: when both alarm 1 and alarm 2 are requested,
  the builder exposes two capabilities named after the zone type with the suffixes
  \<open>_alarm_1\<close> and \<open>_alarm_2\<close>, with different names, keys and descriptions; otherwise
  it exposes one capability named after the zone type. In both cases the remaining
  capabilities are those of the other requested attributes, none of which bears one
  of these names.
\<close>

theorem iasZoneAlarm_exposes_alarms:
  assumes "zoneType args \<noteq> Generic"
  shows "(bothAlarms args \<longrightarrow>
            (\<exists>x1 x2 others.
               iasZoneAlarm_exposes args = Inr (x1 # x2 # others) \<and>
               name x1 = zoneTypeName (zoneType args) @ ''_alarm_1'' \<and>
               name x2 = zoneTypeName (zoneType args) @ ''_alarm_2'' \<and>
               name x1 \<noteq> name x2 \<and> property x1 \<noteq> property x2 \<and>
               description x1 \<noteq> description x2 \<and>
               others = map exposeListAttribute
                          (filter (\<lambda>a. a \<noteq> Alarm_1 \<and> a \<noteq> Alarm_2) (zoneAttributes args)) \<and>
               (\<forall>x \<in> set others. name x \<noteq> name x1 \<and> name x \<noteq> name x2 \<and>
                                    name x \<noteq> zoneTypeName (zoneType args)))) \<and>
         (\<not> bothAlarms args \<longrightarrow>
            (\<exists>z others.
               iasZoneAlarm_exposes args = Inr (z # others) \<and>
               name z = zoneTypeName (zoneType args) \<and>
               others = map exposeListAttribute
                          (filter (\<lambda>a. a \<noteq> Alarm_1 \<and> a \<noteq> Alarm_2) (zoneAttributes args)) \<and>
               (\<forall>x \<in> set others. name x \<noteq> zoneTypeName (zoneType args))))"
proof -
  obtain z where z: "exposeListZone (zoneType args) = Some z"
      "name z = zoneTypeName (zoneType args)" "description z \<noteq> None"
    using exposeListZone_named [OF assms] by blast
  show ?thesis
    using assms z zoneTypeName_not_attribute zoneTypeName_alarm_not_attribute
    by (auto simp add: iasZoneAlarm_exposes_def withDescription_def e_binary_def e_base_def)
qed

theorem iasZoneAlarm_exposes_alarms_witness:
  "(\<exists>xs. iasZoneAlarm_exposes
      \<lparr>zoneType = Smoke, zoneAttributes = [Alarm_1, Alarm_2, Tamper], alarmTimeout = None\<rparr>
      = Inr xs \<and> map name xs = [''smoke_alarm_1'', ''smoke_alarm_2'', ''tamper'']) \<and>
   (\<exists>xs. iasZoneAlarm_exposes
      \<lparr>zoneType = Smoke, zoneAttributes = [Alarm_1, Battery_low], alarmTimeout = None\<rparr>
      = Inr xs \<and> map name xs = [''smoke'', ''battery_low''])"
  using iasZoneAlarm_exposes_alarms
          [of "\<lparr>zoneType = Smoke, zoneAttributes = [Alarm_1, Alarm_2, Tamper],
                alarmTimeout = None\<rparr>"]
        iasZoneAlarm_exposes_alarms
          [of "\<lparr>zoneType = Smoke, zoneAttributes = [Alarm_1, Battery_low],
                alarmTimeout = None\<rparr>"]
  by (auto simp add: bothAlarms_def withDescription_def withCategory_def e_binary_def e_base_def)

lemma jsObject_distinct: "distinct (map fst kvs) \<Longrightarrow> jsObject kvs = kvs"
proof -
  have "distinct (map fst (acc @ kvs)) \<Longrightarrow>
        foldl (\<lambda>obj kv. AList.update (fst kv) (snd kv) obj) acc kvs = acc @ kvs" for acc
  proof (induction kvs arbitrary: acc)
    case Nil
    then show ?case by simp
  next
    case (Cons kv kvs)
    have "AList.update (fst kv) (snd kv) acc = acc @ [kv]"
      using Cons.prems by (induction acc) auto
    with Cons show ?case by simp
  qed
  from this [of "[]"] show "distinct (map fst kvs) \<Longrightarrow> jsObject kvs = kvs"
    by (simp add: jsObject_def)
qed

lemma alarmNames_distinct:
  assumes "zoneType args = Generic \<or> bothAlarms args"
  shows "distinct [alarm1Name args, alarm2Name args, ''tamper'', ''battery_low'',
           ''supervision_reports'', ''restore_reports'', ''trouble'', ''ac_status'', ''test'',
           ''battery_defect'']"
  using assms
  by (cases "zoneType args") (auto simp add: alarm1Name_def alarm2Name_def)

text \<open>
  Where the two alarm keys differ (zone type generic, or both alarms requested), the
  update of the decoder has the ten keys, each with its bit of the status word.
\<close>

lemma iasZoneAlarm_convert_flags:
  assumes "zoneType args = Generic \<or> bothAlarms args"
    and "zoneStatusOf msg = Some (JNum (Fin (of_int n)))"
  shows "fst (iasZoneAlarm_convert args msg options rt) =
           [(alarm1Name args, bit n 0), (alarm2Name args, bit n 1), (''tamper'', bit n 2),
            (''battery_low'', bit n 3), (''supervision_reports'', bit n 4),
            (''restore_reports'', bit n 5), (''trouble'', bit n 6), (''ac_status'', bit n 7),
            (''test'', bit n 8), (''battery_defect'', bit n 9)]"
proof -
  have "fst (iasZoneAlarm_convert args msg options rt) =
          jsObject
           [(alarm1Name args, bit n 0), (alarm2Name args, bit n 1), (''tamper'', bit n 2),
            (''battery_low'', bit n 3), (''supervision_reports'', bit n 4),
            (''restore_reports'', bit n 5), (''trouble'', bit n 6), (''ac_status'', bit n 7),
            (''test'', bit n 8), (''battery_defect'', bit n 9)]"
    using assms(2) by (simp add: iasZoneAlarm_convert_def Let_def gtZero_bitAnd)
  also have "\<dots> = [(alarm1Name args, bit n 0), (alarm2Name args, bit n 1), (''tamper'', bit n 2),
            (''battery_low'', bit n 3), (''supervision_reports'', bit n 4),
            (''restore_reports'', bit n 5), (''trouble'', bit n 6), (''ac_status'', bit n 7),
            (''test'', bit n 8), (''battery_defect'', bit n 9)]"
    using alarmNames_distinct [OF assms(1)] by (intro jsObject_distinct) simp
  finally show ?thesis .
qed

lemma zoneBit_one [simp]:
  "gtZero (bitAnd (Some (JNum (Fin 1))) k) = (k = 0)" if "k < 31"
  using gtZero_bitAnd [of k 1] that by (simp add: bit_iff_odd)

text \<open>
  C10 at a concrete input: zone type smoke with only alarm 1 requested, status word 1
  (alarm 1 active). Both alarm keys are \<open>smoke\<close>, the object literal writes the key
  twice, and the update has nine keys with \<open>smoke\<close> false, the value of bit 1.
\<close>

theorem iasZoneAlarm_convert_alarm1_lost:
  "fst (iasZoneAlarm_convert
      \<lparr>zoneType = Smoke, zoneAttributes = [Alarm_1], alarmTimeout = None\<rparr>
      \<lparr>mtype = CommandStatusChangeNotification,
       mdata = [KeyName ''zonestatus'' \<mapsto> JNum (Fin 1)], mendpoint = 1\<rparr>
      None initialRuntime)
   = [(''smoke'', False), (''tamper'', False), (''battery_low'', False),
      (''supervision_reports'', False), (''restore_reports'', False), (''trouble'', False),
      (''ac_status'', False), (''test'', False), (''battery_defect'', False)]"
  by (simp add: iasZoneAlarm_convert_def zoneStatusOf_def alarm1Name_def alarm2Name_def
        bothAlarms_def jsObject_def Let_def)

subsection \<open>The clear-timer of the security zone\<close>







lemma clearTimeout_fields [simp]:
  "store (clearTimeout h rt) = store rt" "nextHandle (clearTimeout h rt) = nextHandle rt"
  "now (clearTimeout h rt) = now rt"
  by (cases h; simp add: clearTimeout_def)+


















end
